theory Spec2Isabelle
  imports Complex_Main
begin

section \<open>The instrument store of \<^verbatim>\<open>market.py\<close>\<close>

text \<open>
  \<^verbatim>\<open>MarketData\<close> keeps one JSON file per configured symbol and a process-local
  dictionary of activity scores. The model is sequential: every \<^verbatim>\<open>async\<close> method is
  a function of the storage before the call. The lock of the class covers one file read or
  one file write at a time and is not modelled.
\<close>

subsection \<open>Python values and exceptions\<close>

text \<open>
  The values that \<^verbatim>\<open>json.load\<close> returns and that the methods pass around: \<^verbatim>\<open>None\<close>,
  booleans, integers, floats, strings, lists and dictionaries with string keys (kept in
  insertion order). Floats are not interpreted; only their test against zero is used.
\<close>

datatype 'f pyval =
    PNone
  | PBool bool
  | PInt int
  | PFloat 'f
  | PStr string
  | PList "'f pyval list"
  | PDict "(string \<times> 'f pyval) list"

text \<open>
  The exceptions that occur: the two that \<^verbatim>\<open>_read_stock_data\<close> names in its
  \<^verbatim>\<open>except\<close> clause (\<^verbatim>\<open>IOError\<close> stands for \<^verbatim>\<open>OSError\<close> and its subclasses),
  \<^verbatim>\<open>UnicodeDecodeError\<close>, which reading a file that is not UTF-8 raises and which is a
  \<^verbatim>\<open>ValueError\<close> but not a \<^verbatim>\<open>JSONDecodeError\<close>, and those of the operations on
  values.
\<close>

datatype py_exception =
    JSONDecodeError
  | IOError
  | UnicodeDecodeError
  | TypeError
  | KeyError
  | AttributeError

text \<open>A call either raises or returns; \<open>py_bind\<close> runs the next statement on the value returned.\<close>

definition py_bind ::
  "py_exception + 'a \<Rightarrow> ('a \<Rightarrow> py_exception + 'b) \<Rightarrow> py_exception + 'b" where
  "py_bind r f = (case r of Inl e \<Rightarrow> Inl e | Inr v \<Rightarrow> f v)"

text \<open>The truth value of \<^verbatim>\<open>if data:\<close>.\<close>

fun truthy :: "('f::zero) pyval \<Rightarrow> bool" where
  "truthy PNone = False"
| "truthy (PBool b) = b"
| "truthy (PInt n) = (n \<noteq> 0)"
| "truthy (PFloat x) = (x \<noteq> 0)"
| "truthy (PStr s) = (s \<noteq> [])"
| "truthy (PList xs) = (xs \<noteq> [])"
| "truthy (PDict kvs) = (kvs \<noteq> [])"

text \<open>\<^verbatim>\<open>data[key]\<close> for a string key: only a dictionary can be indexed by a string.\<close>

fun py_getitem :: "'f pyval \<Rightarrow> string \<Rightarrow> py_exception + 'f pyval" where
  "py_getitem (PDict kvs) key =
     (case map_of kvs key of Some v \<Rightarrow> Inr v | None \<Rightarrow> Inl KeyError)"
| "py_getitem _ key = Inl TypeError"

text \<open>
  \<^verbatim>\<open>data[key] = v\<close>: an existing key keeps its place, a new key goes to the end.
\<close>

fun dict_set :: "(string \<times> 'a) list \<Rightarrow> string \<Rightarrow> 'a \<Rightarrow> (string \<times> 'a) list" where
  "dict_set [] key v = [(key, v)]"
| "dict_set ((k, w) # kvs) key v =
     (if k = key then (key, v) # kvs else (k, w) # dict_set kvs key v)"

fun py_setitem :: "'f pyval \<Rightarrow> string \<Rightarrow> 'f pyval \<Rightarrow> py_exception + 'f pyval" where
  "py_setitem (PDict kvs) key v = Inr (PDict (dict_set kvs key v))"
| "py_setitem _ key v = Inl TypeError"

text \<open>\<^verbatim>\<open>xs.append(x)\<close>: only a list has the method.\<close>

fun py_append :: "'f pyval \<Rightarrow> 'f pyval \<Rightarrow> py_exception + 'f pyval" where
  "py_append (PList xs) x = Inr (PList (xs @ [x]))"
| "py_append _ x = Inl AttributeError"

fun py_len :: "'f pyval \<Rightarrow> py_exception + nat" where
  "py_len (PList xs) = Inr (length xs)"
| "py_len (PStr s) = Inr (length s)"
| "py_len (PDict kvs) = Inr (length kvs)"
| "py_len _ = Inl TypeError"

text \<open>
  \<^verbatim>\<open>xs[i:]\<close> for an integer \<open>i\<close>: a negative \<open>i\<close> counts from the end and is
  clamped at the start of the sequence, a non-negative one counts from the start and is
  clamped at its end. Note that \<^verbatim>\<open>xs[-0:]\<close> is \<^verbatim>\<open>xs[0:]\<close>, the whole sequence.
  Lists and strings can be sliced. A dictionary cannot: the call raises \<^verbatim>\<open>TypeError\<close>
  (from Python 3.12 on, where a slice is hashable, \<^verbatim>\<open>KeyError\<close>).
\<close>

definition py_slice_from :: "int \<Rightarrow> 'a list \<Rightarrow> 'a list" where
  "py_slice_from i xs =
     (if i < 0 then drop (length xs - nat (- i)) xs else drop (nat i) xs)"

fun py_slice :: "'f pyval \<Rightarrow> int \<Rightarrow> py_exception + 'f pyval" where
  "py_slice (PList xs) i = Inr (PList (py_slice_from i xs))"
| "py_slice (PStr s) i = Inr (PStr (py_slice_from i s))"
| "py_slice _ i = Inl TypeError"

subsection \<open>Files and configuration\<close>

type_synonym symbol = string

text \<open>
  One value of \<^verbatim>\<open>config.TEAMS\<close>, restricted to the keys the store reads: a name, an
  integer starting price and a volatility, which is only copied.
\<close>

record 'f team =
  name :: string
  team_starting_price :: int
  team_volatility :: "'f pyval"

text \<open>
  What \<^verbatim>\<open>open\<close> followed by \<^verbatim>\<open>json.load\<close> does on an existing file: it raises an
  exception, or it returns the value that the text denotes, whatever its shape.
  The storage maps a symbol to its file, \<open>None\<close> when \<^verbatim>\<open>os.path.exists\<close> is false;
  distinct symbols have distinct files.
\<close>

datatype 'f stock_file = Load_raises py_exception | Loaded "'f pyval"

type_synonym 'f store = "symbol \<Rightarrow> 'f stock_file option"

definition path_exists :: "'f store \<Rightarrow> symbol \<Rightarrow> bool" where
  "path_exists st symb = (st symb \<noteq> None)"

text \<open>
  \<^verbatim>\<open>_read_stock_data\<close>: \<^verbatim>\<open>None\<close> for a missing file and for the two exceptions of the
  \<^verbatim>\<open>except\<close> clause; any other exception leaves the method.
\<close>

definition read_stock_data :: "'f store \<Rightarrow> symbol \<Rightarrow> py_exception + 'f pyval" where
  "read_stock_data st symb =
     (if \<not> path_exists st symb then Inr PNone
      else case st symb of
             Some (Loaded data) \<Rightarrow> Inr data
           | Some (Load_raises e) \<Rightarrow>
               if e = JSONDecodeError \<or> e = IOError then Inr PNone else Inl e
           | None \<Rightarrow> Inr PNone)"

text \<open>
  \<^verbatim>\<open>json.dump\<close> to the file opened with mode \<^verbatim>\<open>'w'\<close> replaces its content; a later
  \<^verbatim>\<open>json.load\<close> returns the value that was dumped. The write is taken to reach the
  storage: a file system that refuses it is not represented.
\<close>

definition write_stock_data :: "'f store \<Rightarrow> symbol \<Rightarrow> 'f pyval \<Rightarrow> 'f store" where
  "write_stock_data st symb data = st(symb \<mapsto> Loaded data)"

subsection \<open>Operations of the store\<close>

text \<open>
  \<^verbatim>\<open>config.TEAMS\<close> is a dictionary, iterated in insertion order: an association list.
  \<open>clock symb\<close> is the value of \<^verbatim>\<open>datetime.utcnow().isoformat()\<close> read in the loop
  iteration for \<open>symb\<close>. \<^verbatim>\<open>initialize\<close> reads no file, so nothing is raised.
\<close>

fun initialize ::
  "(symbol \<Rightarrow> string) \<Rightarrow> (symbol \<times> 'f team) list \<Rightarrow> 'f store \<Rightarrow> 'f store" where
  "initialize clock [] st = st"
| "initialize clock ((symb, tm) # teams) st =
     initialize clock teams
       (if \<not> path_exists st symb
        then write_stock_data st symb
               (PDict
                  [(''team_name'', PStr (name tm)),
                   (''symbol'', PStr symb),
                   (''starting_price'', PInt (team_starting_price tm)),
                   (''current_price'', PInt (team_starting_price tm)),
                   (''volatility'', team_volatility tm),
                   (''price_history'',
                      PList [PDict [(''timestamp'', PStr (clock symb)),
                                    (''price'', PInt (team_starting_price tm))]])])
        else st)"

text \<open>The methods that only read return a value or raise.\<close>

definition get_price :: "('f::zero) store \<Rightarrow> symbol \<Rightarrow> py_exception + 'f pyval" where
  "get_price st symb =
     py_bind (read_stock_data st symb) (\<lambda>data.
       if truthy data then py_getitem data ''current_price'' else Inr PNone)"

definition get_stock_info :: "'f store \<Rightarrow> symbol \<Rightarrow> py_exception + 'f pyval" where
  "get_stock_info st symb = read_stock_data st symb"

text \<open>The loop of \<^verbatim>\<open>get_all_stocks\<close> over \<^verbatim>\<open>config.TEAMS.keys()\<close>.\<close>

fun get_all_stocks :: "symbol list \<Rightarrow> ('f::zero) store \<Rightarrow> py_exception + 'f pyval list" where
  "get_all_stocks [] st = Inr []"
| "get_all_stocks (symb # symbs) st =
     py_bind (read_stock_data st symb) (\<lambda>stock_data.
     py_bind (get_all_stocks symbs st) (\<lambda>stocks.
       Inr (if truthy stock_data then stock_data # stocks else stocks)))"

text \<open>
  The methods that write return the exception raised, if any, and the storage when the
  call ends. \<open>H\<close> is \<^verbatim>\<open>config.PRICE_HISTORY_MAX\<close>, a Python integer; \<open>now\<close> is the
  clock reading of the call.
\<close>

definition update_price ::
  "int \<Rightarrow> string \<Rightarrow> symbol \<Rightarrow> int \<Rightarrow> ('f::zero) store \<Rightarrow> py_exception option \<times> 'f store" where
  "update_price H now symb new_price st =
     (case read_stock_data st symb of
        Inl e \<Rightarrow> (Some e, st)
      | Inr data \<Rightarrow>
          if \<not> truthy data then (None, st)
          else
            (case py_bind (py_setitem data ''current_price'' (PInt new_price)) (\<lambda>data.
                  py_bind (py_getitem data ''price_history'') (\<lambda>history.
                  py_bind (py_append history
                             (PDict [(''timestamp'', PStr now), (''price'', PInt new_price)]))
                    (\<lambda>history.
                  py_bind (py_setitem data ''price_history'' history) (\<lambda>data.
                  py_bind (py_getitem data ''price_history'') (\<lambda>history.
                  py_bind (py_len history) (\<lambda>n.
                    if int n > H
                    then py_bind (py_slice history (- H)) (\<lambda>recent.
                           py_setitem data ''price_history'' recent)
                    else Inr data)))))) of
               Inl e \<Rightarrow> (Some e, st)
             | Inr data \<Rightarrow> (None, write_stock_data st symb data)))"

fun reset_prices ::
  "(symbol \<Rightarrow> string) \<Rightarrow> (symbol \<times> 'f team) list \<Rightarrow> ('f::zero) store \<Rightarrow>
     py_exception option \<times> 'f store" where
  "reset_prices clock [] st = (None, st)"
| "reset_prices clock ((symb, tm) # teams) st =
     (case read_stock_data st symb of
        Inl e \<Rightarrow> (Some e, st)
      | Inr data \<Rightarrow>
          if truthy data
          then
            (case py_bind (py_setitem data ''current_price'' (PInt (team_starting_price tm)))
                    (\<lambda>data.
                  py_bind (py_getitem data ''price_history'') (\<lambda>history.
                  py_bind (py_append history
                             (PDict [(''timestamp'', PStr (clock symb)),
                                     (''price'', PInt (team_starting_price tm))]))
                    (\<lambda>history.
                  py_setitem data ''price_history'' history))) of
               Inl e \<Rightarrow> (Some e, st)
             | Inr data \<Rightarrow> reset_prices clock teams (write_stock_data st symb data))
          else reset_prices clock teams st)"

text \<open>
  \<^verbatim>\<open>if limit:\<close> is false for \<^verbatim>\<open>None\<close> and for \<^verbatim>\<open>0\<close>.
\<close>

definition get_price_history ::
  "('f::zero) store \<Rightarrow> symbol \<Rightarrow> int option \<Rightarrow> py_exception + 'f pyval" where
  "get_price_history st symb limit =
     py_bind (read_stock_data st symb) (\<lambda>data.
       if \<not> truthy data then Inr (PList [])
       else
         py_bind (py_getitem data ''price_history'') (\<lambda>history.
           (case limit of
              None \<Rightarrow> Inr history
            | Some l \<Rightarrow> if l \<noteq> 0 then py_slice history (- l) else Inr history)))"

subsection \<open>Activity scores\<close>

text \<open>
  A score starts as the Python integer \<^verbatim>\<open>0\<close>; \<^verbatim>\<open>config.ACTIVITY_DECAY\<close> is a
  number, in practice a float. Floating-point arithmetic is not interpreted: the type of
  floats and its operations are parameters. The conversion of an integer to a float is
  taken to be total.
\<close>

datatype 'f pynum = PyInt int | PyFloat 'f

record 'f float_ops =
  fl_add :: "'f \<Rightarrow> 'f \<Rightarrow> 'f"
  fl_mul :: "'f \<Rightarrow> 'f \<Rightarrow> 'f"
  fl_of_int :: "int \<Rightarrow> 'f"

fun py_add :: "'f float_ops \<Rightarrow> 'f pynum \<Rightarrow> 'f pynum \<Rightarrow> 'f pynum" where
  "py_add ops (PyInt a) (PyInt b) = PyInt (a + b)"
| "py_add ops (PyInt a) (PyFloat y) = PyFloat (fl_add ops (fl_of_int ops a) y)"
| "py_add ops (PyFloat x) (PyInt b) = PyFloat (fl_add ops x (fl_of_int ops b))"
| "py_add ops (PyFloat x) (PyFloat y) = PyFloat (fl_add ops x y)"

fun py_mul :: "'f float_ops \<Rightarrow> 'f pynum \<Rightarrow> 'f pynum \<Rightarrow> 'f pynum" where
  "py_mul ops (PyInt a) (PyInt b) = PyInt (a * b)"
| "py_mul ops (PyInt a) (PyFloat y) = PyFloat (fl_mul ops (fl_of_int ops a) y)"
| "py_mul ops (PyFloat x) (PyInt b) = PyFloat (fl_mul ops x (fl_of_int ops b))"
| "py_mul ops (PyFloat x) (PyFloat y) = PyFloat (fl_mul ops x y)"

type_synonym 'f scores = "symbol \<Rightarrow> 'f pynum option"

text \<open>\<^verbatim>\<open>{symbol: 0 for symbol in config.TEAMS.keys()}\<close>, as in \<^verbatim>\<open>__init__\<close>.\<close>

definition init_activity :: "symbol list \<Rightarrow> 'f scores" where
  "init_activity symbs = map_of (map (\<lambda>symb. (symb, PyInt 0)) symbs)"

definition increment_activity :: "'f float_ops \<Rightarrow> symbol \<Rightarrow> 'f scores \<Rightarrow> 'f scores" where
  "increment_activity ops symb scores =
     (case scores symb of
        Some v \<Rightarrow> scores(symb \<mapsto> py_add ops v (PyInt 1))
      | None \<Rightarrow> scores)"

definition get_activity_score :: "'f scores \<Rightarrow> symbol \<Rightarrow> 'f pynum" where
  "get_activity_score scores symb = (case scores symb of Some v \<Rightarrow> v | None \<Rightarrow> PyInt 0)"

definition decay_activity :: "'f float_ops \<Rightarrow> 'f pynum \<Rightarrow> 'f scores \<Rightarrow> 'f scores" where
  "decay_activity ops d scores = (\<lambda>symb. map_option (\<lambda>v. py_mul ops v d) (scores symb))"

subsection \<open>The price engine\<close>

text \<open>
  Modelled from the spec: the price formula of the engine, which lives in the module
  \<^verbatim>\<open>market_simulator\<close> that \<^verbatim>\<open>bot.py\<close> imports and that is not among the sources.
  Section 4.3, step 2: the new price comes from a random percentage drift whose spread is
  proportional to the volatility and whose mean is shifted upward in proportion to the
  activity score; the result is clamped to a configured minimum and rounded to the integer
  price unit. The distribution and the constant of the shift are left open there, so the
  draw \<open>noise\<close> and the constant \<open>gain\<close> are arbitrary; numbers are taken as reals, and the
  minimum as an integer price.
\<close>

definition compute_price :: "int \<Rightarrow> int \<Rightarrow> real \<Rightarrow> real \<Rightarrow> real \<Rightarrow> real \<Rightarrow> int" where
  "compute_price min_price current vol activity noise gain =
     (let drift = vol * noise + gain * activity;
          raw = of_int current + of_int current * drift / 100
      in round (max (of_int min_price) raw))"

text \<open>
  Modelled from the spec: the part of one tick of the engine that concerns one symbol
  (section 4.3, steps 1 to 3, and its failure semantics). The current price is read from
  the store; a symbol whose document cannot be read is skipped; the computed price is
  written through \<^verbatim>\<open>update_price\<close> when it differs from the current one, and a failure
  of that write does not leave the tick.
\<close>

definition tick_symbol ::
  "int \<Rightarrow> int \<Rightarrow> string \<Rightarrow> real \<Rightarrow> real \<Rightarrow> real \<Rightarrow> real \<Rightarrow> symbol \<Rightarrow> ('f::zero) store \<Rightarrow> 'f store"
  where
  "tick_symbol min_price H now vol activity noise gain symb st =
     (case get_price st symb of
        Inr (PInt current) \<Rightarrow>
          let new_price = compute_price min_price current vol activity noise gain
          in if new_price \<noteq> current then snd (update_price H now symb new_price st) else st
      | _ \<Rightarrow> st)"

subsection \<open>The persisted document\<close>

text \<open>
  The shape of a well-formed document, as \<^verbatim>\<open>initialize\<close> writes it: six keys, the last
  one holding the list of samples, each a dictionary with a timestamp and a price. The
  records name its parts; \<open>doc_val\<close> is the Python value of such a document.
\<close>

record sample =
  timestamp :: string
  price :: int

record 'f stock_data =
  team_name :: string
  symbol :: symbol
  starting_price :: int
  current_price :: int
  volatility :: "'f pyval"
  price_history :: "sample list"

definition sample_val :: "sample \<Rightarrow> 'f pyval" where
  "sample_val s = PDict [(''timestamp'', PStr (timestamp s)), (''price'', PInt (price s))]"

definition doc_val :: "'f stock_data \<Rightarrow> 'f pyval" where
  "doc_val d =
     PDict [(''team_name'', PStr (team_name d)),
            (''symbol'', PStr (symbol d)),
            (''starting_price'', PInt (starting_price d)),
            (''current_price'', PInt (current_price d)),
            (''volatility'', volatility d),
            (''price_history'', PList (map sample_val (price_history d)))]"

subsection \<open>Sequences of calls\<close>

text \<open>
  A finite sequence of \<^verbatim>\<open>update_price\<close> calls on one symbol, each with its clock reading;
  it ends at the first call that raises.
\<close>

fun run_updates ::
  "int \<Rightarrow> symbol \<Rightarrow> (string \<times> int) list \<Rightarrow> ('f::zero) store \<Rightarrow> py_exception option \<times> 'f store"
  where
  "run_updates H symb [] st = (None, st)"
| "run_updates H symb ((now, p) # calls) st =
     (case update_price H now symb p st of
        (None, st') \<Rightarrow> run_updates H symb calls st'
      | (Some e, st') \<Rightarrow> (Some e, st'))"

definition sample_of :: "string \<times> int \<Rightarrow> sample" where
  "sample_of c = \<lparr>timestamp = fst c, price = snd c\<rparr>"

text \<open>The \<open>n\<close> most recent elements of a list that is kept oldest first.\<close>

definition most_recent :: "nat \<Rightarrow> 'a list \<Rightarrow> 'a list" where
  "most_recent n xs = drop (length xs - n) xs"

subsection \<open>An example configuration\<close>

text \<open>
  The scenario of the specification: one symbol \<^verbatim>\<open>STMP\<close> with starting price 100 and
  volatility 0.1, initialised on empty storage. In the examples exact real arithmetic
  stands in for the floats.
\<close>

definition no_files :: "'f store" where
  "no_files = (\<lambda>symb. None)"

definition stmp_teams :: "(symbol \<times> real team) list" where
  "stmp_teams = [(''STMP'', \<lparr>name = ''Stamp'', team_starting_price = 100,
                              team_volatility = PFloat (1 / 10)\<rparr>)]"

definition clock_at :: "string \<Rightarrow> symbol \<Rightarrow> string" where
  "clock_at t symb = t"

definition stmp_store :: "real store" where
  "stmp_store = initialize (clock_at ''t0'') stmp_teams no_files"

definition stmp_doc :: "real stock_data" where
  "stmp_doc = \<lparr>team_name = ''Stamp'', symbol = ''STMP'', starting_price = 100,
               current_price = 100, volatility = PFloat (1 / 10),
               price_history = [\<lparr>timestamp = ''t0'', price = 100\<rparr>]\<rparr>"

definition stmp_calls :: "(string \<times> int) list" where
  "stmp_calls = [(''t1'', 101), (''t2'', 99), (''t3'', 102), (''t4'', 103), (''t5'', 98)]"

text \<open>
  A second configuration. The file of \<^verbatim>\<open>STMP\<close> is present before initialisation: in
  \<open>corrupt_store\<close> it holds text that is not JSON, in \<open>undecodable_store\<close> bytes that are
  not UTF-8.
\<close>

definition two_teams :: "(symbol \<times> real team) list" where
  "two_teams = [(''STMP'', \<lparr>name = ''Stamp'', team_starting_price = 100,
                             team_volatility = PFloat (1 / 10)\<rparr>),
                (''COIN'', \<lparr>name = ''Coin'', team_starting_price = 50,
                             team_volatility = PFloat (1 / 5)\<rparr>)]"

definition coin_doc :: "real stock_data" where
  "coin_doc = \<lparr>team_name = ''Coin'', symbol = ''COIN'', starting_price = 50,
               current_price = 50, volatility = PFloat (1 / 5),
               price_history = [\<lparr>timestamp = ''t0'', price = 50\<rparr>]\<rparr>"

definition corrupt_store :: "real store" where
  "corrupt_store =
     initialize (clock_at ''t0'') two_teams (no_files(''STMP'' \<mapsto> Load_raises JSONDecodeError))"

definition undecodable_store :: "real store" where
  "undecodable_store =
     initialize (clock_at ''t0'') two_teams
       (no_files(''STMP'' \<mapsto> Load_raises UnicodeDecodeError))"

definition real_ops :: "real float_ops" where
  "real_ops = \<lparr>fl_add = (+), fl_mul = (*), fl_of_int = of_int\<rparr>"

section \<open>Basic facts\<close>

lemma read_stock_data_simps:
  "st symb = None \<Longrightarrow> read_stock_data st symb = Inr PNone"
  "st symb = Some (Load_raises JSONDecodeError) \<Longrightarrow> read_stock_data st symb = Inr PNone"
  "st symb = Some (Load_raises IOError) \<Longrightarrow> read_stock_data st symb = Inr PNone"
  "st symb = Some (Load_raises UnicodeDecodeError) \<Longrightarrow>
     read_stock_data st symb = Inl UnicodeDecodeError"
  "st symb = Some (Loaded data) \<Longrightarrow> read_stock_data st symb = Inr data"
  by (simp_all add: read_stock_data_def path_exists_def)

lemma read_write_same:
  "read_stock_data (write_stock_data st symb data) symb = Inr data"
  by (simp add: read_stock_data_def path_exists_def write_stock_data_def)

lemma read_write_other:
  "symb' \<noteq> symb \<Longrightarrow>
   read_stock_data (write_stock_data st symb data) symb' = read_stock_data st symb'"
  by (simp add: read_stock_data_def path_exists_def write_stock_data_def)

lemma truthy_doc_val: "truthy (doc_val d)"
  by (simp add: doc_val_def)

lemma py_slice_from_map: "py_slice_from i (map f xs) = map f (py_slice_from i xs)"
  by (simp add: py_slice_from_def drop_map)

lemma py_slice_from_map_snoc:
  "py_slice_from i (map f xs @ [f x]) = map f (py_slice_from i (xs @ [x]))"
  using py_slice_from_map [of i f "xs @ [x]"] by simp

lemma sample_val_literal:
  "PDict [(''timestamp'', PStr t), (''price'', PInt p)] = sample_val \<lparr>timestamp = t, price = p\<rparr>"
  by (simp add: sample_val_def)

lemma py_slice_from_neg:
  "0 < H \<Longrightarrow> py_slice_from (- H) xs = drop (length xs - nat H) xs"
  by (simp add: py_slice_from_def)

lemma py_slice_from_zero: "py_slice_from 0 xs = xs"
  by (simp add: py_slice_from_def)

lemma py_slice_from_snoc:
  "0 < H \<Longrightarrow>
   py_slice_from (- H) (xs @ [x]) = drop (Suc (length xs) - nat H) xs @ [x]"
  by (simp add: py_slice_from_def)

text \<open>
  The statements of \<^verbatim>\<open>update_price\<close> between the read and the write, run on a
  well-formed document: no exception, and the document with the new price and the new
  history.
\<close>

lemma update_price_document:
  assumes "read_stock_data st symb = Inr (doc_val data)"
  shows "update_price H now symb p st =
           (None, write_stock_data st symb
              (doc_val (data\<lparr>current_price := p,
                 price_history :=
                   (if int (Suc (length (price_history data))) > H
                    then py_slice_from (- H)
                           (price_history data @ [\<lparr>timestamp = now, price = p\<rparr>])
                    else price_history data @ [\<lparr>timestamp = now, price = p\<rparr>])\<rparr>)))"
  using assms
  by (simp add: update_price_def truthy_doc_val)
     (simp add: doc_val_def py_bind_def sample_val_literal py_slice_from_map_snoc)

text \<open>For a positive cap: the old history, cut at the front, followed by the new sample.\<close>

lemma update_price_read:
  assumes "read_stock_data st symb = Inr (doc_val data)" and "0 < H"
  shows "update_price H now symb p st =
           (None, write_stock_data st symb
              (doc_val (data\<lparr>current_price := p,
                 price_history :=
                   drop (Suc (length (price_history data)) - nat H) (price_history data)
                     @ [\<lparr>timestamp = now, price = p\<rparr>]\<rparr>)))"
proof (cases "int (Suc (length (price_history data))) > H")
  case True
  with assms show ?thesis
    by (simp add: update_price_document py_slice_from_snoc)
next
  case False
  then have "Suc (length (price_history data)) - nat H = 0" by simp
  with False assms show ?thesis
    by (simp add: update_price_document)
qed

lemma update_price_other:
  "symb' \<noteq> symb \<Longrightarrow> snd (update_price H now symb p st) symb' = st symb'"
  by (simp add: update_price_def write_stock_data_def split: sum.splits)

text \<open>The reading methods on a well-formed document.\<close>

lemma get_price_document:
  "read_stock_data st symb = Inr (doc_val data) \<Longrightarrow>
   get_price st symb = Inr (PInt (current_price data))"
  by (simp add: get_price_def py_bind_def truthy_doc_val) (simp add: doc_val_def)

lemma get_price_history_document:
  "read_stock_data st symb = Inr (doc_val data) \<Longrightarrow>
   get_price_history st symb limit =
     Inr (PList (map sample_val
           (case limit of
              None \<Rightarrow> price_history data
            | Some l \<Rightarrow> if l \<noteq> 0 then py_slice_from (- l) (price_history data)
                        else price_history data)))"
  by (simp add: get_price_history_def py_bind_def truthy_doc_val)
     (simp add: doc_val_def py_slice_from_map split: option.splits)

lemma stmp_store_read:
  "read_stock_data stmp_store ''STMP'' = Inr (doc_val stmp_doc)"
  by (simp add: stmp_store_def stmp_teams_def stmp_doc_def no_files_def clock_at_def
      path_exists_def read_write_same doc_val_def sample_val_def)

section \<open>Price and history after an update\<close>

text \<open>
  Claim C1. When the document of a symbol is readable, then \<^verbatim>\<open>update_price(symbol, p)\<close>
  returns without an exception, and after it the value of \<^verbatim>\<open>get_price(symbol)\<close> is
  \<open>p\<close>, the stored history is not empty and the price of its last entry is \<open>p\<close> too.
  This holds for every cap \<open>H \<ge> 0\<close> (for \<open>H = 0\<close> the slice \<^verbatim>\<open>[-0:]\<close> keeps the whole
  history).
\<close>

theorem update_price_consistency:
  assumes "read_stock_data st symb = Inr (doc_val data)" and "0 \<le> H"
  shows "fst (update_price H now symb p st) = None \<and>
         get_price (snd (update_price H now symb p st)) symb = Inr (PInt p) \<and>
         (\<exists>data'. read_stock_data (snd (update_price H now symb p st)) symb
                     = Inr (doc_val data') \<and>
                  price_history data' \<noteq> [] \<and>
                  price (last (price_history data')) = p)"
proof -
  obtain hist where
    u: "update_price H now symb p st =
          (None, write_stock_data st symb
                   (doc_val (data\<lparr>current_price := p, price_history := hist\<rparr>)))" and
    h: "hist \<noteq> []" "price (last hist) = p"
  proof (cases "H = 0")
    case True
    with assms(1) that show ?thesis
      by (simp add: update_price_document py_slice_from_zero)
  next
    case False
    with assms(2) have "0 < H" by simp
    with assms(1) that show ?thesis
      by (simp add: update_price_read)
  qed
  let ?d = "data\<lparr>current_price := p, price_history := hist\<rparr>"
  have r: "read_stock_data (snd (update_price H now symb p st)) symb = Inr (doc_val ?d)"
    by (simp add: u read_write_same)
  have "get_price (snd (update_price H now symb p st)) symb = Inr (PInt p)"
    using get_price_document [OF r] by simp
  moreover have "fst (update_price H now symb p st) = None"
    by (simp add: u)
  moreover have "price_history ?d \<noteq> [] \<and> price (last (price_history ?d)) = p"
    using h by simp
  ultimately show ?thesis using r by blast
qed

theorem update_price_consistency_witness:
  "read_stock_data stmp_store ''STMP'' = Inr (doc_val stmp_doc) \<and>
   (0::int) \<le> 5 \<and>
   fst (update_price 5 ''t1'' ''STMP'' 98 stmp_store) = None \<and>
   get_price (snd (update_price 5 ''t1'' ''STMP'' 98 stmp_store)) ''STMP'' = Inr (PInt 98) \<and>
   (\<exists>data'. read_stock_data (snd (update_price 5 ''t1'' ''STMP'' 98 stmp_store)) ''STMP''
               = Inr (doc_val data') \<and>
            price_history data' \<noteq> [] \<and> price (last (price_history data')) = 98)"
proof -
  have h: "(0::int) \<le> 5" by simp
  from update_price_consistency [OF stmp_store_read h, of "''t1''" 98] stmp_store_read h
  show ?thesis by blast
qed

section \<open>The bound on the history\<close>

lemma most_recent_length: "length (most_recent n xs) \<le> n"
  by (simp add: most_recent_def)

lemma most_recent_all: "length xs \<le> n \<Longrightarrow> most_recent n xs = xs"
  by (simp add: most_recent_def)

lemma most_recent_append:
  "most_recent n (most_recent n ys @ zs) = most_recent n (ys @ zs)"
proof (cases "length ys \<le> n")
  case True
  then show ?thesis by (simp add: most_recent_all)
next
  case False
  then have k: "length ys - n + n = length ys" by simp
  have "most_recent n (most_recent n ys @ zs) = drop (length zs) (drop (length ys - n) ys @ zs)"
    using False by (simp add: most_recent_def)
  also have "\<dots> = drop (length zs) (drop (length ys - n) (ys @ zs))"
    by simp
  also have "\<dots> = drop (length zs + (length ys - n)) (ys @ zs)"
    by (simp only: drop_drop)
  also have "\<dots> = most_recent n (ys @ zs)"
    using False by (simp add: most_recent_def add.commute)
  finally show ?thesis .
qed

lemma update_price_most_recent:
  assumes "read_stock_data st symb = Inr (doc_val data)" and "0 < H"
  shows "fst (update_price H now symb p st) = None \<and>
         (\<exists>data'. read_stock_data (snd (update_price H now symb p st)) symb
                     = Inr (doc_val data') \<and>
           price_history data' =
             most_recent (nat H) (price_history data @ [\<lparr>timestamp = now, price = p\<rparr>]))"
proof -
  let ?d = "data\<lparr>current_price := p,
                 price_history :=
                   drop (Suc (length (price_history data)) - nat H) (price_history data)
                     @ [\<lparr>timestamp = now, price = p\<rparr>]\<rparr>"
  have u: "update_price H now symb p st = (None, write_stock_data st symb (doc_val ?d))"
    using assms by (rule update_price_read)
  have "read_stock_data (snd (update_price H now symb p st)) symb = Inr (doc_val ?d)"
    by (simp add: u read_write_same)
  moreover have "price_history ?d =
      most_recent (nat H) (price_history data @ [\<lparr>timestamp = now, price = p\<rparr>])"
    using assms(2) by (simp add: most_recent_def)
  moreover have "fst (update_price H now symb p st) = None"
    by (simp add: u)
  ultimately show ?thesis by blast
qed

lemma run_updates_history:
  assumes "0 < H"
  shows "read_stock_data st symb = Inr (doc_val data) \<Longrightarrow>
         fst (run_updates H symb calls st) = None \<and>
         (\<exists>data'. read_stock_data (snd (run_updates H symb calls st)) symb
                     = Inr (doc_val data') \<and>
           price_history data' =
             (if calls = [] then price_history data
              else most_recent (nat H) (price_history data @ map sample_of calls)))"
proof (induction calls arbitrary: st data)
  case Nil
  then show ?case by auto
next
  case (Cons c calls)
  obtain now p where c: "c = (now, p)" by (cases c)
  obtain st1 where st1: "update_price H now symb p st = (None, st1)"
    using update_price_most_recent [OF Cons.prems assms, of now p]
    by (cases "update_price H now symb p st") simp
  from update_price_most_recent [OF Cons.prems assms, of now p] st1
  obtain data1 where
    r1: "read_stock_data st1 symb = Inr (doc_val data1)" and
    h1: "price_history data1 =
           most_recent (nat H) (price_history data @ [\<lparr>timestamp = now, price = p\<rparr>])"
    by auto
  from Cons.IH [OF r1] obtain data' where
    f': "fst (run_updates H symb calls st1) = None" and
    r': "read_stock_data (snd (run_updates H symb calls st1)) symb = Inr (doc_val data')" and
    h': "price_history data' =
           (if calls = [] then price_history data1
            else most_recent (nat H) (price_history data1 @ map sample_of calls))"
    by blast
  have "price_history data' =
          most_recent (nat H) (price_history data @ map sample_of (c # calls))"
  proof (cases "calls = []")
    case True
    with h' h1 c show ?thesis by (simp add: sample_of_def)
  next
    case False
    with h' h1 have "price_history data' =
        most_recent (nat H)
          ((price_history data @ [\<lparr>timestamp = now, price = p\<rparr>]) @ map sample_of calls)"
      by (simp only: most_recent_append if_False)
    with c show ?thesis by (simp add: sample_of_def)
  qed
  with f' r' c st1 show ?case by auto
qed

text \<open>
  Claim C2. Take a symbol whose document is readable (after \<^verbatim>\<open>initialize\<close> a fresh
  document holds the seed sample alone) and any non-empty sequence of
  \<^verbatim>\<open>update_price\<close> calls on it, with a positive cap \<open>H\<close>. No call raises. After the
  last call, and so after each call since every prefix is such a sequence, the history has
  at most \<open>H\<close> entries, and these are exactly the \<open>H\<close> most recent of the samples held
  before followed by the appended ones, in call order.
\<close>

theorem history_bound:
  assumes "read_stock_data st symb = Inr (doc_val data)" and "0 < H" and "calls \<noteq> []"
  shows "fst (run_updates H symb calls st) = None \<and>
         (\<exists>data'. read_stock_data (snd (run_updates H symb calls st)) symb
                     = Inr (doc_val data') \<and>
           int (length (price_history data')) \<le> H \<and>
           price_history data' =
             most_recent (nat H) (price_history data @ map sample_of calls))"
proof -
  from run_updates_history [OF assms(2) assms(1), of calls] assms(3)
  obtain data' where
    f: "fst (run_updates H symb calls st) = None" and
    r: "read_stock_data (snd (run_updates H symb calls st)) symb = Inr (doc_val data')" and
    h: "price_history data' =
          most_recent (nat H) (price_history data @ map sample_of calls)"
    by auto
  have "length (price_history data') \<le> nat H"
    by (simp only: h most_recent_length)
  with assms(2) have "int (length (price_history data')) \<le> H" by simp
  with f r h show ?thesis by blast
qed

theorem history_bound_witness:
  "read_stock_data stmp_store ''STMP'' = Inr (doc_val stmp_doc) \<and>
   (0::int) < 5 \<and> stmp_calls \<noteq> [] \<and>
   get_price_history (snd (run_updates 5 ''STMP'' stmp_calls stmp_store)) ''STMP'' None =
     Inr (PList (map sample_val
       [\<lparr>timestamp = ''t1'', price = 101\<rparr>, \<lparr>timestamp = ''t2'', price = 99\<rparr>,
        \<lparr>timestamp = ''t3'', price = 102\<rparr>, \<lparr>timestamp = ''t4'', price = 103\<rparr>,
        \<lparr>timestamp = ''t5'', price = 98\<rparr>]))"
proof -
  have h: "(0::int) < 5" by simp
  have c: "stmp_calls \<noteq> []" by (simp add: stmp_calls_def)
  from history_bound [OF stmp_store_read h c]
  obtain data' where
    r: "read_stock_data (snd (run_updates 5 ''STMP'' stmp_calls stmp_store)) ''STMP''
          = Inr (doc_val data')" and
    e: "price_history data' =
          most_recent (nat 5) (price_history stmp_doc @ map sample_of stmp_calls)"
    by auto
  have "price_history data' =
       [\<lparr>timestamp = ''t1'', price = 101\<rparr>, \<lparr>timestamp = ''t2'', price = 99\<rparr>,
        \<lparr>timestamp = ''t3'', price = 102\<rparr>, \<lparr>timestamp = ''t4'', price = 103\<rparr>,
        \<lparr>timestamp = ''t5'', price = 98\<rparr>]"
    by (simp add: e most_recent_def stmp_calls_def stmp_doc_def sample_of_def)
  with get_price_history_document [OF r, of None]
  have "get_price_history (snd (run_updates 5 ''STMP'' stmp_calls stmp_store)) ''STMP'' None =
     Inr (PList (map sample_val
       [\<lparr>timestamp = ''t1'', price = 101\<rparr>, \<lparr>timestamp = ''t2'', price = 99\<rparr>,
        \<lparr>timestamp = ''t3'', price = 102\<rparr>, \<lparr>timestamp = ''t4'', price = 103\<rparr>,
        \<lparr>timestamp = ''t5'', price = 98\<rparr>]))"
    by simp
  with stmp_store_read h c show ?thesis by blast
qed

text \<open>
  Claim C10. A call of \<^verbatim>\<open>update_price\<close> on a readable document appends exactly one
  sample carrying the clock reading and the new price, whatever the new price is, in
  particular when it equals the stored \<^verbatim>\<open>current_price\<close>; the old entries are only cut
  at the front by the cap \<open>H > 0\<close>.
\<close>

theorem update_price_appends_one:
  assumes "read_stock_data st symb = Inr (doc_val data)" and "0 < H"
  shows "fst (update_price H now symb p st) = None \<and>
         (\<exists>data'. read_stock_data (snd (update_price H now symb p st)) symb
                     = Inr (doc_val data') \<and>
           price_history data' =
             drop (Suc (length (price_history data)) - nat H) (price_history data)
               @ [\<lparr>timestamp = now, price = p\<rparr>] \<and>
           length (price_history data') = min (nat H) (Suc (length (price_history data))))"
proof -
  let ?d = "data\<lparr>current_price := p,
                 price_history :=
                   drop (Suc (length (price_history data)) - nat H) (price_history data)
                     @ [\<lparr>timestamp = now, price = p\<rparr>]\<rparr>"
  have u: "update_price H now symb p st = (None, write_stock_data st symb (doc_val ?d))"
    using assms by (rule update_price_read)
  have "read_stock_data (snd (update_price H now symb p st)) symb = Inr (doc_val ?d)"
    by (simp add: u read_write_same)
  moreover have "length (price_history ?d) = min (nat H) (Suc (length (price_history data)))"
    using assms(2) by auto
  moreover have "price_history ?d =
      drop (Suc (length (price_history data)) - nat H) (price_history data)
        @ [\<lparr>timestamp = now, price = p\<rparr>]"
    by simp
  moreover have "fst (update_price H now symb p st) = None"
    by (simp add: u)
  ultimately show ?thesis by blast
qed

theorem update_price_appends_one_witness:
  "read_stock_data stmp_store ''STMP'' = Inr (doc_val stmp_doc) \<and>
   (0::int) < 5 \<and>
   get_price_history (snd (update_price 5 ''t1'' ''STMP'' 100 stmp_store)) ''STMP'' None =
     Inr (PList (map sample_val
       [\<lparr>timestamp = ''t0'', price = 100\<rparr>, \<lparr>timestamp = ''t1'', price = 100\<rparr>]))"
proof -
  have h: "(0::int) < 5" by simp
  from update_price_appends_one [OF stmp_store_read h, of "''t1''" 100]
  obtain data' where
    r: "read_stock_data (snd (update_price 5 ''t1'' ''STMP'' 100 stmp_store)) ''STMP''
          = Inr (doc_val data')" and
    e: "price_history data' =
          drop (Suc (length (price_history stmp_doc)) - nat 5) (price_history stmp_doc)
            @ [\<lparr>timestamp = ''t1'', price = 100\<rparr>]"
    by auto
  have "price_history data' =
          [\<lparr>timestamp = ''t0'', price = 100\<rparr>, \<lparr>timestamp = ''t1'', price = 100\<rparr>]"
    by (simp add: e stmp_doc_def)
  with get_price_history_document [OF r, of None]
  have "get_price_history (snd (update_price 5 ''t1'' ''STMP'' 100 stmp_store)) ''STMP'' None =
     Inr (PList (map sample_val
       [\<lparr>timestamp = ''t0'', price = 100\<rparr>, \<lparr>timestamp = ''t1'', price = 100\<rparr>]))"
    by simp
  with stmp_store_read h show ?thesis by blast
qed

section \<open>Initialisation\<close>

lemma initialize_keeps_existing:
  "path_exists st symb \<Longrightarrow> initialize clock teams st symb = st symb"
proof (induction teams arbitrary: st)
  case Nil
  then show ?case by simp
next
  case (Cons a teams)
  obtain s tm where a: "a = (s, tm)" by (cases a)
  show ?case
  proof (cases "path_exists st s")
    case True
    with Cons a show ?thesis by simp
  next
    case False
    with Cons.prems have ne: "symb \<noteq> s" by auto
    have ex: "path_exists (write_stock_data st s v) symb" for v
      using Cons.prems ne by (simp add: path_exists_def write_stock_data_def)
    have keep: "initialize clock teams (write_stock_data st s v) symb =
                  write_stock_data st s v symb" for v
      using ex by (rule Cons.IH)
    have same: "write_stock_data st s v symb = st symb" for v
      using ne by (simp add: write_stock_data_def)
    from False a show ?thesis
      by (simp add: keep same)
  qed
qed

lemma initialize_preserves_exists:
  assumes "path_exists st symb"
  shows "path_exists (initialize clock teams st) symb"
proof -
  have "initialize clock teams st symb = st symb"
    using assms by (rule initialize_keeps_existing)
  moreover have "st symb \<noteq> None"
    using assms by (simp add: path_exists_def)
  ultimately show ?thesis
    by (simp add: path_exists_def)
qed

lemma initialize_creates:
  "symb \<in> fst ` set teams \<Longrightarrow> path_exists (initialize clock teams st) symb"
proof (induction teams arbitrary: st)
  case Nil
  then show ?case by simp
next
  case (Cons a teams)
  obtain s tm where a: "a = (s, tm)" by (cases a)
  show ?case
  proof (cases "symb = s")
    case True
    have ex: "path_exists (if \<not> path_exists st s then write_stock_data st s v else st) s" for v
      by (simp add: path_exists_def write_stock_data_def)
    from initialize_preserves_exists [OF ex] a True show ?thesis by simp
  next
    case False
    with Cons.prems a have "symb \<in> fst ` set teams" by auto
    from Cons.IH [OF this] a show ?thesis by simp
  qed
qed

lemma initialize_all_exist:
  "(\<And>symb. symb \<in> fst ` set teams \<Longrightarrow> path_exists st symb) \<Longrightarrow>
   initialize clock teams st = st"
  by (induction teams arbitrary: st) auto

text \<open>
  Claim C3. \<^verbatim>\<open>initialize\<close> is idempotent: for any storage, any configuration and any
  clock readings, a second call leaves the storage exactly as the first call left it.
\<close>

theorem initialize_idempotent:
  "initialize clock2 teams (initialize clock1 teams st) = initialize clock1 teams st"
  by (rule initialize_all_exist) (rule initialize_creates)

text \<open>A configured symbol without a file gets a document holding the seed sample alone.\<close>

lemma initialize_seeds:
  assumes "map_of teams symb = Some tm" and "\<not> path_exists st symb"
  shows "read_stock_data (initialize clock teams st) symb =
           Inr (doc_val \<lparr>team_name = name tm, symbol = symb,
                 starting_price = team_starting_price tm,
                 current_price = team_starting_price tm,
                 volatility = team_volatility tm,
                 price_history =
                   [\<lparr>timestamp = clock symb, price = team_starting_price tm\<rparr>]\<rparr>)"
  using assms
proof (induction teams arbitrary: st)
  case Nil
  then show ?case by simp
next
  case (Cons a teams)
  obtain s tm' where a: "a = (s, tm')" by (cases a)
  show ?case
  proof (cases "s = symb")
    case True
    with Cons.prems(1) a have tm: "tm' = tm" by simp
    let ?doc = "doc_val \<lparr>team_name = name tm, symbol = symb,
                 starting_price = team_starting_price tm,
                 current_price = team_starting_price tm,
                 volatility = team_volatility tm,
                 price_history =
                   [\<lparr>timestamp = clock symb, price = team_starting_price tm\<rparr>]\<rparr>"
    have ex: "path_exists (write_stock_data st symb ?doc) symb"
      by (simp add: path_exists_def write_stock_data_def)
    have "initialize clock teams (write_stock_data st symb ?doc) symb =
            write_stock_data st symb ?doc symb"
      using ex by (rule initialize_keeps_existing)
    then have "initialize clock teams (write_stock_data st symb ?doc) symb =
                 Some (Loaded ?doc)"
      by (simp add: write_stock_data_def)
    then have "read_stock_data (initialize clock teams (write_stock_data st symb ?doc)) symb =
                 Inr ?doc"
      by (rule read_stock_data_simps(5))
    with a True tm Cons.prems(2) show ?thesis
      by (simp add: doc_val_def sample_val_def)
  next
    case False
    with Cons.prems(1) a have m: "map_of teams symb = Some tm" by simp
    have "\<not> path_exists (if \<not> path_exists st s then write_stock_data st s v else st) symb"
      for v
      using False Cons.prems(2) by (simp add: path_exists_def write_stock_data_def)
    from Cons.IH [OF m this] a show ?thesis by simp
  qed
qed

section \<open>Files that do not load\<close>

text \<open>
  For the two exceptions that the read catches, the reading methods answer \<^verbatim>\<open>None\<close>
  and \<^verbatim>\<open>get_all_stocks\<close> goes on as if the symbol were not configured.
\<close>

lemma get_all_stocks_skip:
  "read_stock_data st symb = Inr PNone \<Longrightarrow>
   get_all_stocks symbs st = get_all_stocks (removeAll symb symbs) st"
  by (induction symbs) (auto simp: py_bind_def split: sum.splits)

lemma caught_failure_reads:
  assumes "st symb = Some (Load_raises e)" and "e = JSONDecodeError \<or> e = IOError"
  shows "get_price st symb = Inr PNone \<and> get_stock_info st symb = Inr PNone \<and>
         get_all_stocks symbs st = get_all_stocks (removeAll symb symbs) st"
proof -
  have r: "read_stock_data st symb = Inr PNone"
    using assms by (auto simp: read_stock_data_def path_exists_def)
  then show ?thesis
    using get_all_stocks_skip [OF r]
    by (simp add: get_price_def get_stock_info_def py_bind_def)
qed

lemma corrupt_store_simps:
  "corrupt_store ''STMP'' = Some (Load_raises JSONDecodeError)"
  "read_stock_data corrupt_store ''COIN'' = Inr (doc_val coin_doc)"
  by (simp_all add: corrupt_store_def two_teams_def coin_doc_def no_files_def
      clock_at_def path_exists_def write_stock_data_def read_stock_data_def
      doc_val_def sample_val_def)

lemma corrupt_store_reads:
  "get_price corrupt_store ''STMP'' = Inr PNone"
  "get_all_stocks [''STMP'', ''COIN''] corrupt_store = Inr [doc_val coin_doc]"
  using corrupt_store_simps
  by (simp_all add: get_price_def py_bind_def read_stock_data_simps truthy_doc_val)

lemma undecodable_store_simps:
  "undecodable_store ''STMP'' = Some (Load_raises UnicodeDecodeError)"
  "read_stock_data undecodable_store ''COIN'' = Inr (doc_val coin_doc)"
  by (simp_all add: undecodable_store_def two_teams_def coin_doc_def no_files_def
      clock_at_def path_exists_def write_stock_data_def read_stock_data_def
      doc_val_def sample_val_def)

text \<open>
  Claim C6 at a concrete input. The file of \<^verbatim>\<open>STMP\<close> holds bytes that are not UTF-8,
  so that the load raises \<^verbatim>\<open>UnicodeDecodeError\<close>, which the \<^verbatim>\<open>except\<close> clause does
  not name. Then \<^verbatim>\<open>get_price\<close> and \<^verbatim>\<open>get_stock_info\<close> raise instead of answering
  \<^verbatim>\<open>None\<close>, and \<^verbatim>\<open>get_all_stocks\<close> raises too, although the document of the other
  configured symbol is readable.
\<close>

theorem undecodable_document_raises:
  "get_price undecodable_store ''STMP'' = Inl UnicodeDecodeError \<and>
   get_stock_info undecodable_store ''STMP'' = Inl UnicodeDecodeError \<and>
   get_all_stocks [''STMP'', ''COIN''] undecodable_store = Inl UnicodeDecodeError \<and>
   get_stock_info undecodable_store ''COIN'' = Inr (doc_val coin_doc)"
  using undecodable_store_simps
  by (simp add: get_price_def get_stock_info_def py_bind_def read_stock_data_simps)

text \<open>
  Claim C7, as the code has it. When the file of a symbol exists but does not load,
  \<^verbatim>\<open>update_price\<close> writes nothing: the storage is left exactly as it was, and the file
  that does not load stays in place. For the two exceptions that the read turns into
  \<^verbatim>\<open>None\<close> the call takes its early return; any other exception leaves the call.
\<close>

theorem update_price_unloadable:
  assumes "st symb = Some (Load_raises e)"
  shows "update_price H now symb p st =
           (if e = JSONDecodeError \<or> e = IOError then None else Some e, st)"
  using assms by (simp add: update_price_def read_stock_data_def path_exists_def)

theorem update_price_unloadable_witness:
  "corrupt_store ''STMP'' = Some (Load_raises JSONDecodeError) \<and>
   update_price 5 ''t1'' ''STMP'' 100 corrupt_store = (None, corrupt_store)"
proof -
  from update_price_unloadable
         [where st = corrupt_store and symb = "''STMP''" and e = JSONDecodeError
            and H = 5 and now = "''t1''" and p = 100,
          OF corrupt_store_simps(1)] corrupt_store_simps(1)
  show ?thesis by simp
qed

text \<open>
  The file of \<^verbatim>\<open>STMP\<close> that is not JSON is still there, and still not JSON, after
  \<^verbatim>\<open>update_price\<close>.
\<close>

theorem update_price_corrupt_counterexample:
  "corrupt_store ''STMP'' = Some (Load_raises JSONDecodeError) \<and>
   snd (update_price 5 ''t1'' ''STMP'' 100 corrupt_store) ''STMP''
     = Some (Load_raises JSONDecodeError) \<and>
   get_stock_info (snd (update_price 5 ''t1'' ''STMP'' 100 corrupt_store)) ''STMP'' = Inr PNone"
  using corrupt_store_simps(1)
  by (simp add: update_price_def get_stock_info_def read_stock_data_simps)

text \<open>
  Files that load to a value of another shape: a non-empty list makes \<^verbatim>\<open>get_price\<close>
  raise, an empty dictionary is what \<^verbatim>\<open>get_stock_info\<close> returns, and
  \<^verbatim>\<open>update_price\<close> on a dictionary without a history raises before it writes.
\<close>

lemma other_shapes:
  "st symb = Some (Loaded (PList [PInt 1])) \<Longrightarrow> get_price st symb = Inl TypeError"
  "st symb = Some (Loaded (PDict [])) \<Longrightarrow> get_stock_info st symb = Inr (PDict [])"
  "st symb = Some (Loaded (PDict [(''symbol'', PStr symb)])) \<Longrightarrow>
     update_price H now symb p st = (Some KeyError, st)"
  by (simp_all add: get_price_def get_stock_info_def update_price_def py_bind_def
      read_stock_data_simps)

section \<open>Reading the history\<close>

text \<open>
  Claim C8, as the code has it. For a readable document, a positive limit returns exactly
  the most recent \<open>limit\<close> samples, oldest first (all of them when the limit is not below
  the length); without a limit, and also with the limit \<^verbatim>\<open>0\<close>, which the test
  \<^verbatim>\<open>if limit:\<close> treats as absent, the whole retained history is returned.
\<close>

theorem get_price_history_limit:
  assumes "read_stock_data st symb = Inr (doc_val data)" and "0 < l"
  shows "get_price_history st symb (Some l) =
           Inr (PList (map sample_val (most_recent (nat l) (price_history data)))) \<and>
         get_price_history st symb None = Inr (PList (map sample_val (price_history data))) \<and>
         get_price_history st symb (Some 0) = Inr (PList (map sample_val (price_history data)))"
  using assms
  by (simp add: get_price_history_document py_slice_from_neg most_recent_def)

lemma stmp_five_read:
  "read_stock_data (snd (run_updates 5 ''STMP'' stmp_calls stmp_store)) ''STMP'' =
     Inr (doc_val \<lparr>team_name = ''Stamp'', symbol = ''STMP'', starting_price = 100,
           current_price = 98, volatility = PFloat (1 / 10),
           price_history =
             [\<lparr>timestamp = ''t1'', price = 101\<rparr>, \<lparr>timestamp = ''t2'', price = 99\<rparr>,
              \<lparr>timestamp = ''t3'', price = 102\<rparr>, \<lparr>timestamp = ''t4'', price = 103\<rparr>,
              \<lparr>timestamp = ''t5'', price = 98\<rparr>]\<rparr>)"
  by (simp add: stmp_calls_def update_price_read stmp_store_read read_write_same stmp_doc_def)

theorem get_price_history_limit_witness:
  "(0::int) < 2 \<and>
   get_price_history (snd (run_updates 5 ''STMP'' stmp_calls stmp_store)) ''STMP'' (Some 2) =
     Inr (PList (map sample_val
       [\<lparr>timestamp = ''t4'', price = 103\<rparr>, \<lparr>timestamp = ''t5'', price = 98\<rparr>])) \<and>
   get_price_history (snd (run_updates 5 ''STMP'' stmp_calls stmp_store)) ''STMP'' (Some 0) =
     Inr (PList (map sample_val
       [\<lparr>timestamp = ''t1'', price = 101\<rparr>, \<lparr>timestamp = ''t2'', price = 99\<rparr>,
        \<lparr>timestamp = ''t3'', price = 102\<rparr>, \<lparr>timestamp = ''t4'', price = 103\<rparr>,
        \<lparr>timestamp = ''t5'', price = 98\<rparr>]))"
proof -
  have l: "(0::int) < 2" by simp
  from get_price_history_limit [OF stmp_five_read l] l show ?thesis
    by (simp add: most_recent_def)
qed

text \<open>
  With the limit \<^verbatim>\<open>0\<close> the result is the whole history, not its most recent zero
  samples.
\<close>

theorem get_price_history_limit_counterexample:
  "get_price_history stmp_store ''STMP'' (Some 0) =
     Inr (PList [sample_val \<lparr>timestamp = ''t0'', price = 100\<rparr>]) \<and>
   get_price_history stmp_store ''STMP'' (Some 0) \<noteq>
     Inr (PList (map sample_val (most_recent (nat 0) (price_history stmp_doc))))"
  by (simp add: get_price_history_document [OF stmp_store_read] stmp_doc_def most_recent_def)

text \<open>A negative limit drops that many of the oldest samples.\<close>

lemma get_price_history_negative:
  assumes "read_stock_data st symb = Inr (doc_val data)" and "l < 0"
  shows "get_price_history st symb (Some l) =
           Inr (PList (map sample_val (drop (nat (- l)) (price_history data))))"
  using assms by (simp add: get_price_history_document py_slice_from_def)

section \<open>Sign of the price\<close>

lemma compute_price_floor:
  "min_price \<le> compute_price min_price current vol activity noise gain"
proof -
  let ?raw = "of_int current + of_int current * (vol * noise + gain * activity) / 100 :: real"
  have "round (of_int min_price :: real) \<le> round (max (of_int min_price) ?raw)"
    by (rule round_mono) simp
  then show ?thesis
    by (simp add: compute_price_def Let_def)
qed

text \<open>
  Claim C5. A tick of the engine on a symbol whose document is readable leaves a readable
  document whose \<^verbatim>\<open>current_price\<close> is at least the configured minimum, hence positive
  when the minimum is, for every volatility, activity score, draw and shift constant,
  however large, and whatever the price was before. The write goes through
  \<^verbatim>\<open>update_price\<close>, which stores the clamped price as it is.
\<close>

theorem tick_price_floor:
  assumes "read_stock_data st symb = Inr (doc_val data)" and "0 < min_price"
  shows "\<exists>data'. read_stock_data
                   (tick_symbol min_price H now vol activity noise gain symb st) symb
                   = Inr (doc_val data') \<and>
           min_price \<le> current_price data' \<and> 0 < current_price data'"
proof -
  let ?new = "compute_price min_price (current_price data) vol activity noise gain"
  have fl: "min_price \<le> ?new"
    by (rule compute_price_floor)
  have g: "get_price st symb = Inr (PInt (current_price data))"
    using assms(1) by (rule get_price_document)
  show ?thesis
  proof (cases "?new = current_price data")
    case True
    with g have "tick_symbol min_price H now vol activity noise gain symb st = st"
      by (simp add: tick_symbol_def)
    with assms(1,2) fl True show ?thesis by auto
  next
    case False
    with g have t: "tick_symbol min_price H now vol activity noise gain symb st =
                      snd (update_price H now symb ?new st)"
      by (simp add: tick_symbol_def Let_def)
    obtain hist where
      u: "update_price H now symb ?new st =
            (None, write_stock_data st symb
                     (doc_val (data\<lparr>current_price := ?new, price_history := hist\<rparr>)))"
      using update_price_document [OF assms(1)] by blast
    let ?d = "data\<lparr>current_price := ?new, price_history := hist\<rparr>"
    have "read_stock_data
            (tick_symbol min_price H now vol activity noise gain symb st) symb
            = Inr (doc_val ?d)"
      by (simp add: t u read_write_same)
    moreover have "min_price \<le> current_price ?d \<and> 0 < current_price ?d"
      using fl assms(2) by simp
    ultimately show ?thesis by blast
  qed
qed

lemma stmp_tick_price:
  "get_price (tick_symbol 1 5 ''t1'' 1000000 1000000 (- 50) 1 ''STMP'' stmp_store) ''STMP''
     = Inr (PInt 1)"
proof -
  have c: "compute_price 1 100 1000000 1000000 (- 50) 1 = 1"
    by (simp add: compute_price_def Let_def max_def)
  have g: "get_price stmp_store ''STMP'' = Inr (PInt 100)"
    using get_price_document [OF stmp_store_read] by (simp add: stmp_doc_def)
  have h: "(0::int) < 5" by simp
  have "tick_symbol 1 5 ''t1'' 1000000 1000000 (- 50) 1 ''STMP'' stmp_store =
          snd (update_price 5 ''t1'' ''STMP'' 1 stmp_store)"
    by (simp add: tick_symbol_def g c)
  then show ?thesis
    using get_price_document [where st = "snd (update_price 5 ''t1'' ''STMP'' 1 stmp_store)"
            and symb = "''STMP''"]
    by (simp add: update_price_read [OF stmp_store_read h] read_write_same)
qed

theorem tick_price_floor_witness:
  "read_stock_data stmp_store ''STMP'' = Inr (doc_val stmp_doc) \<and>
   (0::int) < 1 \<and>
   get_price (tick_symbol 1 5 ''t1'' 1000000 1000000 (- 50) 1 ''STMP'' stmp_store) ''STMP''
     = Inr (PInt 1) \<and>
   (\<exists>data'. read_stock_data
              (tick_symbol 1 5 ''t1'' 1000000 1000000 (- 50) 1 ''STMP'' stmp_store) ''STMP''
              = Inr (doc_val data') \<and>
            1 \<le> current_price data' \<and> 0 < current_price data')"
proof -
  have m: "(0::int) < 1" by simp
  from tick_price_floor [OF stmp_store_read m, of 5 "''t1''" 1000000 1000000 "- 50" 1]
    stmp_store_read stmp_tick_price m
  show ?thesis by blast
qed

section \<open>Reset\<close>

lemma reset_prices_other:
  "symb \<notin> fst ` set teams \<Longrightarrow> snd (reset_prices clock teams st) symb = st symb"
proof (induction teams arbitrary: st)
  case Nil
  then show ?case by simp
next
  case (Cons a teams)
  obtain s tm where a: "a = (s, tm)" by (cases a)
  with Cons.prems have ne: "symb \<noteq> s" and rest: "symb \<notin> fst ` set teams" by auto
  have same: "write_stock_data st s v symb = st symb" for v
    using ne by (simp add: write_stock_data_def)
  from Cons.IH [OF rest] a show ?case
    by (simp add: same split: sum.splits)
qed

text \<open>
  One iteration of \<^verbatim>\<open>reset_prices\<close> on a well-formed document: it appends one sample
  and writes the document without cutting the history.
\<close>

lemma reset_prices_document:
  assumes "read_stock_data st symb = Inr (doc_val data)"
  shows "reset_prices clock ((symb, tm) # teams) st =
           reset_prices clock teams
             (write_stock_data st symb
                (doc_val (data\<lparr>current_price := team_starting_price tm,
                   price_history := price_history data @
                     [\<lparr>timestamp = clock symb, price = team_starting_price tm\<rparr>]\<rparr>)))"
  using assms
  by (simp add: truthy_doc_val) (simp add: doc_val_def py_bind_def sample_val_literal)

lemma read_stock_data_same_file:
  "st' symb = st symb \<Longrightarrow> read_stock_data st' symb = read_stock_data st symb"
  by (simp add: read_stock_data_def path_exists_def)

text \<open>
  A call of \<^verbatim>\<open>reset_prices\<close> that does not raise appends one sample to every readable
  configured document and never cuts the history.
\<close>

lemma reset_prices_appends:
  assumes "distinct (map fst teams)" and "(symb, tm) \<in> set teams"
    and "read_stock_data st symb = Inr (doc_val data)"
    and "fst (reset_prices clock teams st) = None"
  shows "read_stock_data (snd (reset_prices clock teams st)) symb =
           Inr (doc_val (data\<lparr>current_price := team_starting_price tm,
                      price_history := price_history data @
                        [\<lparr>timestamp = clock symb, price = team_starting_price tm\<rparr>]\<rparr>))"
  using assms
proof (induction teams arbitrary: st)
  case Nil
  then show ?case by simp
next
  case (Cons a teams)
  obtain s tm' where a: "a = (s, tm')" by (cases a)
  let ?d = "data\<lparr>current_price := team_starting_price tm,
                 price_history := price_history data @
                   [\<lparr>timestamp = clock symb, price = team_starting_price tm\<rparr>]\<rparr>"
  show ?case
  proof (cases "s = symb")
    case True
    with Cons.prems(1,2) a have tm: "tm' = tm" and rest: "symb \<notin> fst ` set teams"
      by (auto simp: image_iff)
    have "reset_prices clock (a # teams) st =
            reset_prices clock teams (write_stock_data st symb (doc_val ?d))"
      unfolding a True tm by (rule reset_prices_document [OF Cons.prems(3)])
    then have "snd (reset_prices clock (a # teams) st) symb = Some (Loaded (doc_val ?d))"
      using reset_prices_other [OF rest] by (simp add: write_stock_data_def)
    then show ?thesis by (rule read_stock_data_simps(5))
  next
    case False
    with Cons.prems a have d: "distinct (map fst teams)" and m: "(symb, tm) \<in> set teams"
      by auto
    have "\<exists>st1. reset_prices clock (a # teams) st = reset_prices clock teams st1 \<and>
                st1 symb = st symb"
      using a False Cons.prems(4)
      by (auto simp: write_stock_data_def split: sum.splits if_splits)
    then obtain st1 where
      s1: "reset_prices clock (a # teams) st = reset_prices clock teams st1" and
      e1: "st1 symb = st symb"
      by blast
    have r1: "read_stock_data st1 symb = Inr (doc_val data)"
      using read_stock_data_same_file [where st' = st1 and st = st and symb = symb, OF e1]
        Cons.prems(3)
      by simp
    have f1: "fst (reset_prices clock teams st1) = None"
      using Cons.prems(4) s1 by simp
    from Cons.IH [OF d m r1 f1] s1 show ?thesis by simp
  qed
qed

text \<open>
  Claim C4 at a concrete input. With the cap 5, five updates leave a history of five
  entries; \<^verbatim>\<open>reset_prices\<close> then returns normally and leaves six, since it appends
  without the trim that \<^verbatim>\<open>update_price\<close> performs.
\<close>

theorem reset_prices_exceeds_cap:
  "py_bind (get_price_history (snd (run_updates 5 ''STMP'' stmp_calls stmp_store))
              ''STMP'' None) py_len = Inr 5 \<and>
   fst (reset_prices (clock_at ''t6'') stmp_teams
          (snd (run_updates 5 ''STMP'' stmp_calls stmp_store))) = None \<and>
   py_bind (get_price_history
              (snd (reset_prices (clock_at ''t6'') stmp_teams
                      (snd (run_updates 5 ''STMP'' stmp_calls stmp_store))))
              ''STMP'' None) py_len = Inr 6"
proof -
  let ?st = "snd (run_updates 5 ''STMP'' stmp_calls stmp_store)"
  let ?d = "\<lparr>team_name = ''Stamp'', symbol = ''STMP'', starting_price = 100,
           current_price = 98, volatility = PFloat (1 / 10) :: real pyval,
           price_history =
             [\<lparr>timestamp = ''t1'', price = 101\<rparr>, \<lparr>timestamp = ''t2'', price = 99\<rparr>,
              \<lparr>timestamp = ''t3'', price = 102\<rparr>, \<lparr>timestamp = ''t4'', price = 103\<rparr>,
              \<lparr>timestamp = ''t5'', price = 98\<rparr>]\<rparr>"
  let ?d' = "?d\<lparr>current_price := 100,
                price_history := price_history ?d @ [\<lparr>timestamp = ''t6'', price = 100\<rparr>]\<rparr>"
  have before: "py_bind (get_price_history ?st ''STMP'' None) py_len = Inr 5"
    by (simp add: get_price_history_document [OF stmp_five_read] py_bind_def)
  have r: "reset_prices (clock_at ''t6'') stmp_teams ?st =
             (None, write_stock_data ?st ''STMP'' (doc_val ?d'))"
    unfolding stmp_teams_def
    by (subst reset_prices_document [OF stmp_five_read]) (simp add: clock_at_def)
  have "read_stock_data (snd (reset_prices (clock_at ''t6'') stmp_teams ?st)) ''STMP''
          = Inr (doc_val ?d')"
    by (simp add: r read_write_same)
  then have after: "py_bind (get_price_history
                      (snd (reset_prices (clock_at ''t6'') stmp_teams ?st)) ''STMP'' None)
                      py_len = Inr 6"
    by (simp add: get_price_history_document py_bind_def)
  from before r after show ?thesis by simp
qed

section \<open>Activity\<close>

lemma init_activity_configured:
  "symb \<in> set symbs \<Longrightarrow> init_activity symbs symb = Some (PyInt 0)"
  by (induction symbs) (auto simp: init_activity_def)

lemma increment_activity_funpow:
  "scores symb = Some (PyInt k) \<Longrightarrow>
   (increment_activity ops symb ^^ n) scores symb = Some (PyInt (k + int n))"
  by (induction n) (simp_all add: increment_activity_def)

text \<open>
  Claim C9. For a configured symbol, whose score starts at the integer 0, \<open>n\<close> calls of
  \<^verbatim>\<open>increment_activity\<close> give the score \<open>n\<close>, and one call of
  \<^verbatim>\<open>decay_activity\<close> after them gives the product of \<open>n\<close> and the decay factor, as
  Python's multiplication of the two numbers computes it.
\<close>

theorem activity_increment_decay:
  assumes "symb \<in> set symbs"
  shows "get_activity_score ((increment_activity ops symb ^^ n) (init_activity symbs)) symb
           = PyInt (int n) \<and>
         get_activity_score
           (decay_activity ops d ((increment_activity ops symb ^^ n) (init_activity symbs))) symb
           = py_mul ops (PyInt (int n)) d"
proof -
  have "(increment_activity ops symb ^^ n) (init_activity symbs) symb = Some (PyInt (0 + int n))"
    using assms by (intro increment_activity_funpow init_activity_configured)
  then show ?thesis
    by (simp add: get_activity_score_def decay_activity_def)
qed

theorem activity_increment_decay_witness:
  "''STMP'' \<in> set [''STMP'', ''COIN''] \<and>
   get_activity_score
     ((increment_activity real_ops ''STMP'' ^^ 3) (init_activity [''STMP'', ''COIN''])) ''STMP''
     = PyInt 3 \<and>
   get_activity_score
     (decay_activity real_ops (PyFloat (9 / 10))
        ((increment_activity real_ops ''STMP'' ^^ 3) (init_activity [''STMP'', ''COIN'']))) ''STMP''
     = PyFloat (27 / 10)"
proof -
  have m: "''STMP'' \<in> set [''STMP'', ''COIN'']" by simp
  from activity_increment_decay
         [OF m, where ops = real_ops and n = 3 and d = "PyFloat (9 / 10)"] m
  show ?thesis
    by (simp add: real_ops_def)
qed

end
